theory Spec2Isabelle
  imports Main
begin

section \<open>Values, errors and the outside world\<close>

text \<open>
  The store of \<^verbatim>\<open>task_manager.py\<close> is dynamically typed: a task attribute holds whatever
  the constructor, a loaded file or \<^verbatim>\<open>setattr\<close> put there. The values are those that
  \<^verbatim>\<open>json.load\<close> produces, floating point numbers left out. Text is a list of 8-bit
  characters, so the model speaks about ASCII text.
\<close>

datatype pyval =
    PNone
  | PBool bool
  | PInt int
  | PStr string
  | PList "pyval list"
  | PDict "(string \<times> pyval) list"

text \<open>
  The exceptions the store can raise. \<open>ObjectAttribute\<close> is not a Python exception: it marks
  the one place where the model stops, a keyword of \<^verbatim>\<open>update_task\<close> that names something
  the class \<^verbatim>\<open>Task\<close> inherits from \<^verbatim>\<open>object\<close>; what \<^verbatim>\<open>setattr\<close> does there is decided by
  the Python runtime (a data descriptor such as \<^verbatim>\<open>__class__\<close> raises, another name is
  stored on the instance).
\<close>

datatype error = TypeError | KeyError | AttributeError | ObjectAttribute string

text \<open>
  The backing file as \<^verbatim>\<open>load_tasks\<close> sees it: \<^verbatim>\<open>os.path.exists\<close> is false, or
  \<^verbatim>\<open>json.load\<close> raises \<^verbatim>\<open>JSONDecodeError\<close>, or \<^verbatim>\<open>json.load\<close> returns a value.
\<close>

datatype file_state = Missing | Unparseable | Parsed pyval

section \<open>class Task\<close>

record task =
  task_id :: pyval
  title :: pyval
  description :: pyval
  priority :: pyval
  due_date :: pyval
  completed :: pyval
  created_at :: pyval

text \<open>
  \<^verbatim>\<open>Task.__init__\<close>. \<open>addr\<close> is the value of \<^verbatim>\<open>id(self)\<close> for the object under
  construction and \<open>now\<close> the formatted \<^verbatim>\<open>datetime.now()\<close>; both come from outside.
\<close>

definition Task_init ::
  "int \<Rightarrow> string \<Rightarrow> pyval \<Rightarrow> pyval \<Rightarrow> pyval \<Rightarrow> pyval \<Rightarrow> pyval \<Rightarrow> task" where
  "Task_init addr now ttl descr prio due tid =
     \<lparr> task_id = (if tid \<noteq> PNone then tid else PInt addr),
       title = ttl,
       description = descr,
       priority = prio,
       due_date = due,
       completed = PBool False,
       created_at = PStr now \<rparr>"

definition to_dict :: "task \<Rightarrow> (string \<times> pyval) list" where
  "to_dict t =
     [(''id'', task_id t),
      (''title'', title t),
      (''description'', description t),
      (''priority'', priority t),
      (''due_date'', due_date t),
      (''completed'', completed t),
      (''created_at'', created_at t)]"

text \<open>\<^verbatim>\<open>data.get(key, default)\<close> on a dictionary.\<close>

definition dict_get :: "(string \<times> pyval) list \<Rightarrow> string \<Rightarrow> pyval \<Rightarrow> pyval" where
  "dict_get d k dflt = (case map_of d k of None \<Rightarrow> dflt | Some v \<Rightarrow> v)"

text \<open>
  \<^verbatim>\<open>Task.from_dict\<close>. \<^verbatim>\<open>data['title']\<close> is evaluated first: it raises \<^verbatim>\<open>TypeError\<close> on
  anything that is not a dictionary and \<^verbatim>\<open>KeyError\<close> on a dictionary without the key.
  \<open>now0\<close> is the time the constructor reads, \<open>now\<close> the time read for the default of
  \<^verbatim>\<open>created_at\<close>.
\<close>

definition from_dict :: "int \<Rightarrow> string \<Rightarrow> string \<Rightarrow> pyval \<Rightarrow> error + task" where
  "from_dict addr now0 now data =
     (case data of
        PDict d \<Rightarrow>
          (case map_of d ''title'' of
             None \<Rightarrow> Inl KeyError
           | Some ttl \<Rightarrow>
               Inr ((Task_init addr now0 ttl
                       (dict_get d ''description'' (PStr ''''))
                       (dict_get d ''priority'' (PStr ''Medium''))
                       (dict_get d ''due_date'' (PStr ''''))
                       (dict_get d ''id'' PNone))
                     \<lparr> completed := dict_get d ''completed'' (PBool False),
                       created_at := dict_get d ''created_at'' (PStr now) \<rparr>))
      | _ \<Rightarrow> Inl TypeError)"

section \<open>class TaskManager\<close>

record task_manager =
  tasks :: "task list"
  disk :: file_state

text \<open>\<^verbatim>\<open>task.id == task_id\<close> for an integer \<^verbatim>\<open>task_id\<close>: \<^verbatim>\<open>True == 1\<close> holds in Python.\<close>

fun py_eq_int :: "pyval \<Rightarrow> int \<Rightarrow> bool" where
  "py_eq_int (PInt n) k = (n = k)"
| "py_eq_int (PBool b) k = ((if b then 1 else 0) = k)"
| "py_eq_int _ k = False"

text \<open>Truth value of an object in a condition.\<close>

fun truthy :: "pyval \<Rightarrow> bool" where
  "truthy PNone = False"
| "truthy (PBool b) = b"
| "truthy (PInt n) = (n \<noteq> 0)"
| "truthy (PStr s) = (s \<noteq> [])"
| "truthy (PList xs) = (xs \<noteq> [])"
| "truthy (PDict d) = (d \<noteq> [])"

definition save_tasks :: "task_manager \<Rightarrow> task_manager" where
  "save_tasks m = m \<lparr> disk := Parsed (PList (map (\<lambda>t. PDict (to_dict t)) (tasks m))) \<rparr>"

text \<open>What \<^verbatim>\<open>for task_data in data\<close> iterates over.\<close>

fun py_iter :: "pyval \<Rightarrow> error + pyval list" where
  "py_iter (PList xs) = Inr xs"
| "py_iter (PDict d) = Inr (map (\<lambda>kv. PStr (fst kv)) d)"
| "py_iter (PStr s) = Inr (map (\<lambda>c. PStr [c]) s)"
| "py_iter _ = Inl TypeError"

text \<open>
  The list comprehension of \<^verbatim>\<open>load_tasks\<close>: the \<open>i\<close>-th object gets its identity and its
  two clock readings from \<open>env i\<close>; the first exception ends the comprehension.
\<close>

fun from_dicts :: "(nat \<Rightarrow> int \<times> string \<times> string) \<Rightarrow> nat \<Rightarrow> pyval list \<Rightarrow> error + task list" where
  "from_dicts env i [] = Inr []"
| "from_dicts env i (x # xs) =
     (case from_dict (fst (env i)) (fst (snd (env i))) (snd (snd (env i))) x of
        Inl e \<Rightarrow> Inl e
      | Inr t \<Rightarrow>
          (case from_dicts env (Suc i) xs of
             Inl e \<Rightarrow> Inl e
           | Inr ts \<Rightarrow> Inr (t # ts)))"

text \<open>
  \<^verbatim>\<open>load_tasks\<close>: \<^verbatim>\<open>except (json.JSONDecodeError, KeyError)\<close> turns those two into the empty
  list; any other exception leaves the function.
\<close>

definition load_tasks :: "(nat \<Rightarrow> int \<times> string \<times> string) \<Rightarrow> file_state \<Rightarrow> error + task list" where
  "load_tasks env f =
     (case f of
        Missing \<Rightarrow> Inr []
      | Unparseable \<Rightarrow> Inr []
      | Parsed data \<Rightarrow>
          (case py_iter data of
             Inl e \<Rightarrow> (if e = KeyError then Inr [] else Inl e)
           | Inr xs \<Rightarrow>
               (case from_dicts env 0 xs of
                  Inl e \<Rightarrow> (if e = KeyError then Inr [] else Inl e)
                | Inr ts \<Rightarrow> Inr ts)))"

definition TaskManager_init ::
  "(nat \<Rightarrow> int \<times> string \<times> string) \<Rightarrow> file_state \<Rightarrow> error + task_manager" where
  "TaskManager_init env f =
     (case load_tasks env f of
        Inl e \<Rightarrow> Inl e
      | Inr ts \<Rightarrow> Inr \<lparr> tasks = ts, disk = f \<rparr>)"

text \<open>\<^verbatim>\<open>add_task\<close>; the four arguments are text, as annotated.\<close>

definition add_task ::
  "int \<Rightarrow> string \<Rightarrow> task_manager \<Rightarrow> string \<Rightarrow> string \<Rightarrow> string \<Rightarrow> string \<Rightarrow> task \<times> task_manager" where
  "add_task addr now m ttl descr prio due =
     (let t = Task_init addr now (PStr ttl) (PStr descr) (PStr prio) (PStr due) PNone
      in (t, save_tasks (m \<lparr> tasks := tasks m @ [t] \<rparr>)))"

definition get_task :: "task_manager \<Rightarrow> int \<Rightarrow> task option" where
  "get_task m tid = find (\<lambda>t. py_eq_int (task_id t) tid) (tasks m)"

text \<open>
  The object \<^verbatim>\<open>get_task\<close> returns is the first one in the list with that id; changing it
  in place changes that position of the list, and \<^verbatim>\<open>list.remove\<close> (identity comparison,
  \<^verbatim>\<open>Task\<close> has no \<^verbatim>\<open>__eq__\<close>) removes that position.
\<close>

fun update_first :: "('a \<Rightarrow> bool) \<Rightarrow> ('a \<Rightarrow> 'a) \<Rightarrow> 'a list \<Rightarrow> 'a list" where
  "update_first P f [] = []"
| "update_first P f (x # xs) = (if P x then f x # xs else x # update_first P f xs)"

fun remove_first :: "('a \<Rightarrow> bool) \<Rightarrow> 'a list \<Rightarrow> 'a list" where
  "remove_first P [] = []"
| "remove_first P (x # xs) = (if P x then xs else x # remove_first P xs)"

text \<open>The names in the instance dictionary of a task, and \<^verbatim>\<open>setattr\<close> on one of them.\<close>

definition instance_attrs :: "string list" where
  "instance_attrs =
     [''id'', ''title'', ''description'', ''priority'', ''due_date'', ''completed'', ''created_at'']"

definition setattr :: "task \<Rightarrow> string \<Rightarrow> pyval \<Rightarrow> task" where
  "setattr t k v =
     (if k = ''id'' then t \<lparr> task_id := v \<rparr>
      else if k = ''title'' then t \<lparr> title := v \<rparr>
      else if k = ''description'' then t \<lparr> description := v \<rparr>
      else if k = ''priority'' then t \<lparr> priority := v \<rparr>
      else if k = ''due_date'' then t \<lparr> due_date := v \<rparr>
      else if k = ''completed'' then t \<lparr> completed := v \<rparr>
      else if k = ''created_at'' then t \<lparr> created_at := v \<rparr>
      else t)"

text \<open>The methods the body of \<^verbatim>\<open>class Task\<close> defines.\<close>

definition Task_methods :: "string list" where
  "Task_methods = [''__init__'', ''to_dict'', ''from_dict'', ''__str__'']"

text \<open>
  The loop of \<^verbatim>\<open>update_task\<close> over \<^verbatim>\<open>kwargs.items()\<close>. \<^verbatim>\<open>hasattr(task, key)\<close> holds for
  the seven instance attributes, for the methods of the class and for what the class
  inherits from \<^verbatim>\<open>object\<close>; \<open>on_object\<close> says which names the last are. \<^verbatim>\<open>setattr\<close> with the
  name of a method stores an instance attribute that hides the method and leaves the seven
  attributes alone; the flag records that \<^verbatim>\<open>to_dict\<close> has been hidden.
\<close>

fun apply_kwargs ::
  "(string \<Rightarrow> bool) \<Rightarrow> task \<times> bool \<Rightarrow> (string \<times> pyval) list \<Rightarrow> error + task \<times> bool" where
  "apply_kwargs on_object (t, hidden) [] = Inr (t, hidden)"
| "apply_kwargs on_object (t, hidden) (kv # kvs) =
     (if fst kv \<in> set instance_attrs
      then apply_kwargs on_object (setattr t (fst kv) (snd kv), hidden) kvs
      else if fst kv \<in> set Task_methods
      then apply_kwargs on_object (t, hidden \<or> fst kv = ''to_dict'') kvs
      else if on_object (fst kv) then Inl (ObjectAttribute (fst kv))
      else apply_kwargs on_object (t, hidden) kvs)"

text \<open>
  \<^verbatim>\<open>update_task\<close>. When \<^verbatim>\<open>to_dict\<close> has been hidden by a value, \<^verbatim>\<open>task.to_dict()\<close> in
  \<^verbatim>\<open>save_tasks\<close> calls that value and raises \<^verbatim>\<open>TypeError\<close>, before the file is opened.
\<close>

definition update_task ::
  "(string \<Rightarrow> bool) \<Rightarrow> task_manager \<Rightarrow> int \<Rightarrow> (string \<times> pyval) list \<Rightarrow> error + bool \<times> task_manager" where
  "update_task on_object m tid kwargs =
     (case get_task m tid of
        None \<Rightarrow> Inr (False, m)
      | Some t \<Rightarrow>
          (case apply_kwargs on_object (t, False) kwargs of
             Inl e \<Rightarrow> Inl e
           | Inr (t', hidden) \<Rightarrow>
               (if hidden then Inl TypeError
                else Inr (True,
                          save_tasks (m \<lparr> tasks :=
                            update_first (\<lambda>u. py_eq_int (task_id u) tid) (\<lambda>u. t') (tasks m) \<rparr>)))))"

text \<open>
  A sample of \<open>on_object\<close>: the names an instance of a plain class answers to in CPython 3
  beyond its own attributes and methods.
\<close>

definition object_attrs :: "string \<Rightarrow> bool" where
  "object_attrs k \<longleftrightarrow> k \<in> set
     [''__class__'', ''__delattr__'', ''__dict__'', ''__dir__'', ''__doc__'', ''__eq__'',
      ''__format__'', ''__ge__'', ''__getattribute__'', ''__gt__'', ''__hash__'', ''__init__'',
      ''__init_subclass__'', ''__le__'', ''__lt__'', ''__module__'', ''__ne__'', ''__new__'',
      ''__reduce__'', ''__reduce_ex__'', ''__repr__'', ''__setattr__'', ''__sizeof__'',
      ''__str__'', ''__subclasshook__'', ''__weakref__'']"

definition delete_task :: "task_manager \<Rightarrow> int \<Rightarrow> bool \<times> task_manager" where
  "delete_task m tid =
     (case get_task m tid of
        Some t \<Rightarrow>
          (True, save_tasks (m \<lparr> tasks := remove_first (\<lambda>u. py_eq_int (task_id u) tid) (tasks m) \<rparr>))
      | None \<Rightarrow> (False, m))"

definition complete_task :: "task_manager \<Rightarrow> int \<Rightarrow> bool \<times> task_manager" where
  "complete_task m tid =
     (case get_task m tid of
        Some t \<Rightarrow>
          (True,
           save_tasks (m \<lparr> tasks :=
             update_first (\<lambda>u. py_eq_int (task_id u) tid)
               (\<lambda>u. u \<lparr> completed := PBool True \<rparr>) (tasks m) \<rparr>))
      | None \<Rightarrow> (False, m))"

definition uncomplete_task :: "task_manager \<Rightarrow> int \<Rightarrow> bool \<times> task_manager" where
  "uncomplete_task m tid =
     (case get_task m tid of
        Some t \<Rightarrow>
          (True,
           save_tasks (m \<lparr> tasks :=
             update_first (\<lambda>u. py_eq_int (task_id u) tid)
               (\<lambda>u. u \<lparr> completed := PBool False \<rparr>) (tasks m) \<rparr>))
      | None \<Rightarrow> (False, m))"

subsection \<open>Search\<close>

text \<open>\<^verbatim>\<open>str.lower\<close> on ASCII text: the 26 capital letters go to their small letters.\<close>

definition lower_char :: "char \<Rightarrow> char" where
  "lower_char c =
     (case map_of (zip ''ABCDEFGHIJKLMNOPQRSTUVWXYZ'' ''abcdefghijklmnopqrstuvwxyz'') c of
        Some l \<Rightarrow> l
      | None \<Rightarrow> c)"

definition lower :: "string \<Rightarrow> string" where
  "lower s = map lower_char s"

text \<open>\<^verbatim>\<open>q in s\<close> on text.\<close>

fun py_in :: "string \<Rightarrow> string \<Rightarrow> bool" where
  "py_in q [] = (q = [])"
| "py_in q (c # cs) = (take (length q) (c # cs) = q \<or> py_in q cs)"

text \<open>\<^verbatim>\<open>v.lower()\<close>: only text has the method.\<close>

fun py_lower :: "pyval \<Rightarrow> error + string" where
  "py_lower (PStr s) = Inr (lower s)"
| "py_lower _ = Inl AttributeError"

text \<open>
  The condition of the comprehension in \<^verbatim>\<open>search_tasks\<close>; \<^verbatim>\<open>or\<close> does not look at the
  description once the title matches.
\<close>

definition matches :: "string \<Rightarrow> task \<Rightarrow> error + bool" where
  "matches q t =
     (case py_lower (title t) of
        Inl e \<Rightarrow> Inl e
      | Inr s \<Rightarrow>
          (if py_in q s then Inr True
           else (case py_lower (description t) of
                   Inl e \<Rightarrow> Inl e
                 | Inr d \<Rightarrow> Inr (py_in q d))))"

fun filter_tasks :: "(task \<Rightarrow> error + bool) \<Rightarrow> task list \<Rightarrow> error + task list" where
  "filter_tasks c [] = Inr []"
| "filter_tasks c (t # ts) =
     (case c t of
        Inl e \<Rightarrow> Inl e
      | Inr b \<Rightarrow>
          (case filter_tasks c ts of
             Inl e \<Rightarrow> Inl e
           | Inr rs \<Rightarrow> Inr (if b then t # rs else rs)))"

definition search_tasks :: "task_manager \<Rightarrow> string \<Rightarrow> error + task list" where
  "search_tasks m query = filter_tasks (matches (lower query)) (tasks m)"

subsection \<open>Statistics\<close>

record statistics =
  total :: nat
  completed_count :: nat
  pending :: nat
  priority_counts :: "(string \<times> nat) list"

text \<open>\<^verbatim>\<open>sum(1 for task in self.tasks if c)\<close>.\<close>

definition count_if :: "(task \<Rightarrow> bool) \<Rightarrow> task list \<Rightarrow> nat" where
  "count_if c ts = sum_list (map (\<lambda>t. 1) (filter c ts))"

definition get_statistics :: "task_manager \<Rightarrow> statistics" where
  "get_statistics m =
     (let n = length (tasks m);
          ncompleted = count_if (\<lambda>t. truthy (completed t)) (tasks m)
      in \<lparr> total = n,
           completed_count = ncompleted,
           pending = n - ncompleted,
           priority_counts =
             [(''High'', count_if (\<lambda>t. priority t = PStr ''High'' \<and> \<not> truthy (completed t)) (tasks m)),
              (''Medium'', count_if (\<lambda>t. priority t = PStr ''Medium'' \<and> \<not> truthy (completed t)) (tasks m)),
              (''Low'', count_if (\<lambda>t. priority t = PStr ''Low'' \<and> \<not> truthy (completed t)) (tasks m))] \<rparr>)"

section \<open>Helper lemmas\<close>

lemma count_if_length: "count_if c ts = length (filter c ts)"
  by (induction ts) (simp_all add: count_if_def)

lemma length_filter_split: "length ts - length (filter c ts) = length (filter (\<lambda>t. \<not> c t) ts)"
  by (induction ts) (auto simp: Suc_diff_le)

section \<open>Statistics\<close>

text \<open>
  C6. For every store, \<^verbatim>\<open>get_statistics\<close> returns the number of records, the number of
  completed records, the number of records that are not completed and, among the records
  that are not completed, the number with priority High, with Medium and with Low, in that
  order; nothing else is counted in a bucket, so a record with another priority is in none.
\<close>

theorem get_statistics_counts:
  "get_statistics m =
     \<lparr> total = length (tasks m),
       completed_count = length (filter (\<lambda>t. truthy (completed t)) (tasks m)),
       pending = length (filter (\<lambda>t. \<not> truthy (completed t)) (tasks m)),
       priority_counts =
         map (\<lambda>p. (p, length (filter (\<lambda>t. priority t = PStr p \<and> \<not> truthy (completed t)) (tasks m))))
           [''High'', ''Medium'', ''Low''] \<rparr>"
  by (simp add: get_statistics_def Let_def count_if_length length_filter_split)

end
